theory Spec2Isabelle
  imports Main "HOL-Library.AList" "HOL-Library.Char_ord" "HOL-Library.List_Lexorder"
begin

section \<open>Errors\<close>

text \<open>
  The exceptions the modelled code can raise, each carrying its message.
  \<open>ValueError\<close> and \<open>IndexError\<close> are Python's own; \<open>BatchNotFoundError\<close> and
  \<open>SpectrogramNotFoundError\<close> come from \<open>spectre_core.exceptions\<close>. A function that
  can raise returns \<open>error + 'a\<close>, with \<open>Inl\<close> for the raise.
\<close>

datatype error =
    ValueError string
  | IndexError string
  | BatchNotFoundError string
  | SpectrogramNotFoundError string

section \<open>Python primitives used by the code\<close>

text \<open>
  Truthiness of an \<open>Optional[int]\<close>, as tested by \<open>if year:\<close>: \<open>None\<close> and \<open>0\<close> are
  false, every other integer is true.
\<close>

fun truthy :: "int option \<Rightarrow> bool" where
  "truthy None = False"
| "truthy (Some n) = (n \<noteq> 0)"

text \<open>Decimal digits of a natural number, most significant first (\<open>str(n)\<close>).\<close>

fun digits_of :: "nat \<Rightarrow> string" where
  "digits_of n =
     (if n < 10 then [''0123456789'' ! n]
      else digits_of (n div 10) @ [''0123456789'' ! (n mod 10)])"

declare digits_of.simps [simp del]

text \<open>\<open>str(i)\<close> for an integer.\<close>

definition str_int :: "int \<Rightarrow> string" where
  "str_int i = (if i < 0 then CHR ''-'' # digits_of (nat (- i)) else digits_of (nat i))"

text \<open>
  The format specification \<open>0w\<close> on an integer (\<open>f"{year:04}"\<close>, \<open>f"{month:02}"\<close>):
  sign-aware zero padding to a total width of \<open>w\<close>; a number with more digits
  than the width is printed in full.
\<close>

definition zero_pad :: "nat \<Rightarrow> string \<Rightarrow> string" where
  "zero_pad w ds = replicate (w - length ds) CHR ''0'' @ ds"

definition format_zero_padded :: "nat \<Rightarrow> int \<Rightarrow> string" where
  "format_zero_padded w i =
     (if i < 0 then CHR ''-'' # zero_pad (w - 1) (digits_of (nat (- i)))
      else zero_pad w (digits_of (nat i)))"

text \<open>
  \<open>os.path.join(a, *p)\<close> on POSIX: a component that starts with the separator
  replaces what was joined so far, as does any component when the path so far is empty;
  otherwise the component is appended, after a separator unless the path already ends
  with one.
\<close>

fun os_path_join :: "string \<Rightarrow> string list \<Rightarrow> string" where
  "os_path_join path [] = path"
| "os_path_join path (b # bs) =
     os_path_join
       (if (b \<noteq> [] \<and> hd b = CHR ''/'') \<or> path = [] then b
        else if last path = CHR ''/'' then path @ b
        else path @ ''/'' @ b) bs"

text \<open>\<open>s.rfind(c)\<close> for a single character: the last index of \<open>c\<close>, or \<open>-1\<close>.\<close>

fun rfind_from :: "char \<Rightarrow> string \<Rightarrow> int \<Rightarrow> int \<Rightarrow> int" where
  "rfind_from c [] i found = found"
| "rfind_from c (x # xs) i found = rfind_from c xs (i + 1) (if x = c then i else found)"

definition rfind :: "char \<Rightarrow> string \<Rightarrow> int" where
  "rfind c s = rfind_from c s 0 (- 1)"

text \<open>
  \<open>os.path.splitext(p)\<close> on POSIX (\<open>genericpath._splitext\<close> with separator \<open>/\<close>
  and extension separator \<open>.\<close>): the extension starts at the last dot, provided that
  dot comes after the last separator and some character between the separator and
  the dot is not a dot (leading dots of the file name do not start an extension).
\<close>

definition splitext :: "string \<Rightarrow> string \<times> string" where
  "splitext p =
     (let sepIndex = rfind CHR ''/'' p;
          dotIndex = rfind CHR ''.'' p
      in if dotIndex > sepIndex \<and>
            list_ex (\<lambda>c. c \<noteq> CHR ''.'')
              (take (nat (dotIndex - (sepIndex + 1))) (drop (nat (sepIndex + 1)) p))
         then (take (nat dotIndex) p, drop (nat dotIndex) p)
         else (p, []))"

text \<open>
  \<open>s.split(sep, 1)\<close> for a single-character separator: the text before the first
  separator and the text after it, or the whole string alone when it has none.
\<close>

definition str_split1 :: "char \<Rightarrow> string \<Rightarrow> string list" where
  "str_split1 sep s =
     (if sep \<in> set s
      then [takeWhile (\<lambda>c. c \<noteq> sep) s, tl (dropWhile (\<lambda>c. c \<noteq> sep) s)]
      else [s])"

text \<open>Unpacking a list into two targets: \<open>a, b = xs\<close>.\<close>

fun unpack2 :: "'a list \<Rightarrow> error + ('a \<times> 'a)" where
  "unpack2 [] = Inl (ValueError ''not enough values to unpack (expected 2, got 0)'')"
| "unpack2 [a] = Inl (ValueError ''not enough values to unpack (expected 2, got 1)'')"
| "unpack2 [a, b] = Inr (a, b)"
| "unpack2 (a # b # c # xs) = Inl (ValueError ''too many values to unpack (expected 2)'')"

section \<open>Date-partitioned directory paths (\<open>config/_paths.py\<close>)\<close>

text \<open>
  \<open>_get_date_based_dir_path(base_dir, year, month, day)\<close>. The two guards and the
  three appends all test their argument by truthiness. The list
  \<open>date_dir_components\<close> is the local variable of that name.
\<close>

definition date_dir_components :: "int option \<Rightarrow> int option \<Rightarrow> int option \<Rightarrow> string list" where
  "date_dir_components year month day =
     (if truthy year then [format_zero_padded 4 (the year)] else []) @
     (if truthy month then [format_zero_padded 2 (the month)] else []) @
     (if truthy day then [format_zero_padded 2 (the day)] else [])"

definition get_date_based_dir_path ::
  "string \<Rightarrow> int option \<Rightarrow> int option \<Rightarrow> int option \<Rightarrow> error + string" where
  "get_date_based_dir_path base_dir year month day =
     (if truthy day \<and> \<not> (truthy year \<and> truthy month)
      then Inl (ValueError ''A day requires both a month and a year'')
      else if truthy month \<and> \<not> truthy year
      then Inl (ValueError ''A month requires a year'')
      else Inr (os_path_join base_dir (date_dir_components year month day)))"

text \<open>
  The environment of the package: the module constant \<open>_BATCHES_DIR_PATH\<close> (the
  \<open>batches\<close> directory under \<open>SPECTRE_DATA_DIR_PATH\<close>) and the file system as
  \<open>os.walk\<close> shows it: for a directory path, the file names found anywhere below it,
  in the order of the walk (a directory that does not exist yields none).
\<close>

record env =
  BATCHES_DIR_PATH :: string
  walk_files :: "string \<Rightarrow> string list"

definition get_batches_dir_path ::
  "env \<Rightarrow> int option \<Rightarrow> int option \<Rightarrow> int option \<Rightarrow> error + string" where
  "get_batches_dir_path E year month day =
     get_date_based_dir_path (BATCHES_DIR_PATH E) year month day"

section \<open>The batch registry (\<open>batches/_batches.py\<close>)\<close>

text \<open>
  Modelled from the spec: the batch class \<open>batch_cls\<close> (\<open>BaseBatch\<close> and its plugins)
  is not part of the sources at hand. A batch is identified by its start time and its
  tag, and constructing one from the two keeps exactly them. The constructor is taken
  to return for every start time and tag; a batch class whose constructor raised would
  end the rescan at that file.
\<close>

record batch =
  start_time :: string
  batch_tag :: string

text \<open>
  The registry \<open>Batches\<close>: its tag, its date scope and the ordered dictionary
  \<open>_batch_map\<close>, an association list in insertion order with one entry per key.
\<close>

record batches =
  tag :: string
  year :: "int option"
  month :: "int option"
  day :: "int option"
  batch_map :: "(string \<times> batch) list"

definition batches_dir_path :: "env \<Rightarrow> batches \<Rightarrow> error + string" where
  "batches_dir_path E self = get_batches_dir_path E (year self) (month self) (day self)"

definition batch_list :: "batches \<Rightarrow> batch list" where
  "batch_list self = map snd (batch_map self)"

definition start_times :: "batches \<Rightarrow> string list" where
  "start_times self = map fst (batch_map self)"

definition num_batches :: "batches \<Rightarrow> int" where
  "num_batches self = int (length (batch_list self))"

text \<open>
  The loop of \<open>update\<close> over the discovered file names: strip the extension, split
  at the first underscore and unpack into \<open>start_time, tag\<close> (which raises when there
  is no underscore); an entry is stored when the tag is the registry's. Storing under a
  key already present keeps the key's position (\<open>AList.update\<close>).
\<close>

fun scan_files ::
  "string \<Rightarrow> string list \<Rightarrow> (string \<times> batch) list \<Rightarrow> error + (string \<times> batch) list" where
  "scan_files tg [] m = Inr m"
| "scan_files tg (batch_file_name # rest) m =
     (case unpack2 (str_split1 CHR ''_'' (fst (splitext batch_file_name))) of
        Inl e \<Rightarrow> Inl e
      | Inr (st, t) \<Rightarrow>
          scan_files tg rest
            (if t = tg then AList.update st \<lparr>start_time = st, batch_tag = t\<rparr> m else m))"

text \<open>
  \<open>update\<close>: reset the map, list the files below \<open>batches_dir_path\<close> (which raises
  for an invalid date scope), run the loop, and sort the entries. The keys of a
  dictionary are distinct, so sorting the items sorts them by key. Python orders
  strings lexicographically by code point, which on the bytes of UTF-8 text is the
  lexicographic order of lists over the order of characters. When \<open>update\<close>
  raises, the object keeps the map as reset or as filled so far: \<open>update\<close> returns
  the error alone, and \<open>update_leaves\<close> below gives the object.
\<close>

definition update :: "env \<Rightarrow> batches \<Rightarrow> error + batches" where
  "update E self =
     (case batches_dir_path E self of
        Inl e \<Rightarrow> Inl e
      | Inr path \<Rightarrow>
          (case scan_files (tag self) (walk_files E path) [] of
             Inl e \<Rightarrow> Inl e
           | Inr m \<Rightarrow> Inr (self\<lparr>batch_map := sort_key fst m\<rparr>)))"

definition set_date ::
  "env \<Rightarrow> batches \<Rightarrow> int option \<Rightarrow> int option \<Rightarrow> int option \<Rightarrow> error + batches" where
  "set_date E self y m d = update E (self\<lparr>year := y, month := m, day := d\<rparr>)"

text \<open>
  The object as a call leaves it, whether the call returned or raised. The loop of
  \<open>update\<close> leaves the map as filled up to the file whose name did not unpack;
  \<open>update\<close> has emptied the map before it asks for the path, and sorts it only
  after the loop; \<open>set_date\<close> has assigned the three date fields before it calls
  \<open>update\<close>.
\<close>

fun scan_files_leaves ::
  "string \<Rightarrow> string list \<Rightarrow> (string \<times> batch) list \<Rightarrow> (string \<times> batch) list" where
  "scan_files_leaves tg [] m = m"
| "scan_files_leaves tg (batch_file_name # rest) m =
     (case unpack2 (str_split1 CHR ''_'' (fst (splitext batch_file_name))) of
        Inl e \<Rightarrow> m
      | Inr (st, t) \<Rightarrow>
          scan_files_leaves tg rest
            (if t = tg then AList.update st \<lparr>start_time = st, batch_tag = t\<rparr> m else m))"

definition update_leaves :: "env \<Rightarrow> batches \<Rightarrow> batches" where
  "update_leaves E self =
     (case batches_dir_path E self of
        Inl e \<Rightarrow> self\<lparr>batch_map := []\<rparr>
      | Inr path \<Rightarrow>
          (case scan_files (tag self) (walk_files E path) [] of
             Inl e \<Rightarrow> self\<lparr>batch_map := scan_files_leaves (tag self) (walk_files E path) []\<rparr>
           | Inr m \<Rightarrow> self\<lparr>batch_map := sort_key fst m\<rparr>))"

definition set_date_leaves ::
  "env \<Rightarrow> batches \<Rightarrow> int option \<Rightarrow> int option \<Rightarrow> int option \<Rightarrow> batches" where
  "set_date_leaves E self y m d = update_leaves E (self\<lparr>year := y, month := m, day := d\<rparr>)"

text \<open>
  \<open>_get_from_start_time\<close>: the dictionary lookup; a missing key raises
  \<open>BatchNotFoundError\<close>, whose message interpolates \<open>batches_dir_path\<close>, so that
  building the message raises instead when the date scope is invalid.
\<close>

definition get_from_start_time :: "env \<Rightarrow> batches \<Rightarrow> string \<Rightarrow> error + batch" where
  "get_from_start_time E self st =
     (case map_of (batch_map self) st of
        Some b \<Rightarrow> Inr b
      | None \<Rightarrow>
          (case batches_dir_path E self of
             Inl e \<Rightarrow> Inl e
           | Inr path \<Rightarrow>
               Inl (BatchNotFoundError
                 (''Batch with start time '' @ st @ '' could not be found within '' @ path))))"

text \<open>
  Indexing a Python list, \<open>xs[i]\<close>: an index below zero counts from the end, and an
  index outside \<open>-len(xs) .. len(xs) - 1\<close> raises \<open>IndexError\<close>. The model keeps
  one message for it; for an index too large for a machine index CPython raises the
  same exception with another message.
\<close>

definition list_getitem :: "'a list \<Rightarrow> int \<Rightarrow> error + 'a" where
  "list_getitem xs i =
     (if i < - int (length xs) \<or> int (length xs) \<le> i
      then Inl (IndexError ''list index out of range'')
      else Inr (xs ! nat (if i < 0 then i + int (length xs) else i)))"

text \<open>
  \<open>_get_from_index\<close>: the two guards of the source, then the list access.
\<close>

definition get_from_index :: "batches \<Rightarrow> int \<Rightarrow> error + batch" where
  "get_from_index self index =
     (if num_batches self = 0 then Inl (BatchNotFoundError ''No batches are available'')
      else if index > num_batches self
      then Inl (IndexError
             (''Index '' @ [CHR 0x27] @ str_int index @ [CHR 0x27] @
              '' is greater than the number of batches '' @
              [CHR 0x27] @ str_int (num_batches self) @ [CHR 0x27]))
      else list_getitem (batch_list self) index)"

text \<open>\<open>__getitem__\<close> dispatches on the type of the subscript.\<close>

datatype subscript = StrSub string | IntSub int

fun getitem :: "env \<Rightarrow> batches \<Rightarrow> subscript \<Rightarrow> error + batch" where
  "getitem E self (StrSub s) = get_from_start_time E self s"
| "getitem E self (IntSub i) = get_from_index self i"

section \<open>Range queries\<close>

text \<open>The formats of \<open>config/_time_formats.py\<close>.\<close>

definition DATE :: string where
  "DATE = ''%Y-%m-%d''"

definition TIME :: string where
  "TIME = ''%H:%M:%S''"

definition DATETIME :: string where
  "DATETIME = DATE @ ''T'' @ TIME"

text \<open>
  Modelled from the spec: the class \<open>Spectrogram\<close> of \<open>spectre_core.spectrograms\<close> is
  not part of the sources at hand. A spectrogram is a grid of samples over an ordered
  sequence of timestamps and a sequence of frequency bins; the grid is kept here as one
  spectrum per timestamp. The range query reads only \<open>datetimes\<close>.
\<close>

record ('t, 'v) spectrogram =
  datetimes :: "'t list"
  frequencies :: "'v list"
  dynamic_spectra :: "'v list list"

text \<open>
  What the range query calls and the sources at hand do not define, as parameters:
  \<open>datetime.strptime\<close>, the batch's \<open>spectrogram_file.exists\<close> and
  \<open>read_spectrogram()\<close>, and \<open>time_chop\<close> and \<open>join_spectrograms\<close> of
  \<open>spectre_core.spectrograms\<close>. Each may raise.
\<close>

record ('t, 'v) spectrogram_env =
  strptime :: "string \<Rightarrow> string \<Rightarrow> error + 't"
  spectrogram_file_exists :: "batch \<Rightarrow> bool"
  read_spectrogram :: "batch \<Rightarrow> error + ('t, 'v) spectrogram"
  time_chop :: "('t, 'v) spectrogram \<Rightarrow> string \<Rightarrow> string \<Rightarrow> error + ('t, 'v) spectrogram"
  join_spectrograms :: "('t, 'v) spectrogram list \<Rightarrow> error + ('t, 'v) spectrogram"

text \<open>
  The loop of \<open>get_spectrogram_from_range\<close> over the batches, with the list
  \<open>spectrograms\<close> collected so far. \<open>datetimes[0]\<close> and \<open>datetimes[-1]\<close> raise on
  an empty time axis.
\<close>

fun collect_spectrograms ::
  "('t::linorder, 'v) spectrogram_env \<Rightarrow> 't \<Rightarrow> 't \<Rightarrow> string \<Rightarrow> string \<Rightarrow> batch list \<Rightarrow>
   ('t, 'v) spectrogram list \<Rightarrow> error + ('t, 'v) spectrogram list" where
  "collect_spectrograms S start_datetime end_datetime st et [] spectrograms = Inr spectrograms"
| "collect_spectrograms S start_datetime end_datetime st et (b # rest) spectrograms =
     (if \<not> spectrogram_file_exists S b
      then collect_spectrograms S start_datetime end_datetime st et rest spectrograms
      else
        (case read_spectrogram S b of
           Inl e \<Rightarrow> Inl e
         | Inr sp \<Rightarrow>
             (case list_getitem (datetimes sp) 0 of
                Inl e \<Rightarrow> Inl e
              | Inr lower_bound \<Rightarrow>
                  (case list_getitem (datetimes sp) (- 1) of
                     Inl e \<Rightarrow> Inl e
                   | Inr upper_bound \<Rightarrow>
                       if start_datetime \<le> upper_bound \<and> lower_bound \<le> end_datetime
                       then
                         (case time_chop S sp st et of
                            Inl e \<Rightarrow> Inl e
                          | Inr chopped \<Rightarrow>
                              collect_spectrograms S start_datetime end_datetime st et rest
                                (spectrograms @ [chopped]))
                       else
                         collect_spectrograms S start_datetime end_datetime st et rest
                           spectrograms))))"

definition get_spectrogram_from_range ::
  "('t::linorder, 'v) spectrogram_env \<Rightarrow> batches \<Rightarrow> string \<Rightarrow> string \<Rightarrow>
   error + ('t, 'v) spectrogram" where
  "get_spectrogram_from_range S self st et =
     (case strptime S st DATETIME of
        Inl e \<Rightarrow> Inl e
      | Inr start_datetime \<Rightarrow>
          (case strptime S et DATETIME of
             Inl e \<Rightarrow> Inl e
           | Inr end_datetime \<Rightarrow>
               (case collect_spectrograms S start_datetime end_datetime st et
                       (batch_list self) [] of
                  Inl e \<Rightarrow> Inl e
                | Inr spectrograms \<Rightarrow>
                    if spectrograms \<noteq> [] then join_spectrograms S spectrograms
                    else Inl (SpectrogramNotFoundError
                           ''No spectrogram data found for the given time range''))))"

section \<open>Vocabulary of the statements\<close>

text \<open>
  The parts of a discovered file name, as the loop of \<open>update\<close> computes them: the
  name without its extension, whether it has the underscore the unpacking needs, and
  the start time and tag on either side of the first underscore.
\<close>

definition batch_name :: "string \<Rightarrow> string" where
  "batch_name f = fst (splitext f)"

definition has_underscore :: "string \<Rightarrow> bool" where
  "has_underscore f = (CHR ''_'' \<in> set (batch_name f))"

definition name_start_time :: "string \<Rightarrow> string" where
  "name_start_time f = takeWhile (\<lambda>c. c \<noteq> CHR ''_'') (batch_name f)"

definition name_tag :: "string \<Rightarrow> string" where
  "name_tag f = tl (dropWhile (\<lambda>c. c \<noteq> CHR ''_'') (batch_name f))"

text \<open>The timestamps of the discovered files that carry the tag, in discovery order.\<close>

definition discovered_start_times :: "string \<Rightarrow> string list \<Rightarrow> string list" where
  "discovered_start_times tg fs = map name_start_time (filter (\<lambda>f. name_tag f = tg) fs)"

text \<open>One assignment \<open>self._batch_map[start_time] = self.batch_cls(start_time, tag)\<close>.\<close>

definition store :: "string \<Rightarrow> string \<Rightarrow> (string \<times> batch) list \<Rightarrow> (string \<times> batch) list" where
  "store tg st m = AList.update st \<lparr>start_time = st, batch_tag = tg\<rparr> m"

subsection \<open>A small file system\<close>

text \<open>
  Two batches of the tag \<open>obs\<close> (one of them with two files) and a batch of another
  tag in the batches directory, and a stray \<open>README\<close> under the year 2024.
\<close>

definition example_env :: env where
  "example_env =
     \<lparr>BATCHES_DIR_PATH = ''/data/batches'',
      walk_files = (\<lambda>p. if p = ''/data/batches''
         then [''2024-01-02T00:00:00_obs.fits'', ''2024-01-01T00:00:00_obs.bin'',
               ''2024-01-01T00:00:00_obs.fits'', ''2024-01-03T00:00:00_other.fits'']
         else if p = ''/data/batches/2024'' then [''README''] else [])\<rparr>"

definition example_registry :: batches where
  "example_registry = \<lparr>tag = ''obs'', year = None, month = None, day = None, batch_map = []\<rparr>"

definition example_updated :: batches where
  "example_updated = example_registry\<lparr>batch_map :=
     [(''2024-01-01T00:00:00'', \<lparr>start_time = ''2024-01-01T00:00:00'', batch_tag = ''obs''\<rparr>),
      (''2024-01-02T00:00:00'', \<lparr>start_time = ''2024-01-02T00:00:00'', batch_tag = ''obs''\<rparr>)]\<rparr>"

definition example_registry_2024 :: batches where
  "example_registry_2024 = example_registry\<lparr>year := Some 2024\<rparr>"

subsection \<open>Date scopes\<close>

text \<open>
  The dependency between the components of a date scope, in the words of the
  specification: a day requires both a month and a year, and a month requires a year.
  A component is present when it is not \<open>None\<close>.
\<close>

definition date_dependency :: "int option \<Rightarrow> int option \<Rightarrow> int option \<Rightarrow> bool" where
  "date_dependency y m d =
     ((d \<noteq> None \<longrightarrow> m \<noteq> None \<and> y \<noteq> None) \<and> (m \<noteq> None \<longrightarrow> y \<noteq> None))"

subsection \<open>Range queries\<close>

text \<open>
  The overlap test in the words of the specification, for one batch: its spectrogram
  file exists, and its time range \<open>[first, last]\<close> meets the requested window,
  \<open>start \<le> last\<close> and \<open>first \<le> end\<close>.
\<close>

definition overlaps_window ::
  "('t::linorder, 'v) spectrogram_env \<Rightarrow> 't \<Rightarrow> 't \<Rightarrow> batch \<Rightarrow> bool" where
  "overlaps_window S start_dt end_dt b =
     (spectrogram_file_exists S b \<and>
      (case read_spectrogram S b of
         Inl e \<Rightarrow> False
       | Inr sp \<Rightarrow>
           datetimes sp \<noteq> [] \<and>
           start_dt \<le> last (datetimes sp) \<and> hd (datetimes sp) \<le> end_dt))"

text \<open>The spectrogram of a batch, read and clipped to the requested window.\<close>

definition chopped ::
  "('t, 'v) spectrogram_env \<Rightarrow> string \<Rightarrow> string \<Rightarrow> batch \<Rightarrow> error + ('t, 'v) spectrogram" where
  "chopped S st et b =
     (case read_spectrogram S b of Inl e \<Rightarrow> Inl e | Inr sp \<Rightarrow> time_chop S sp st et)"

text \<open>
  The collaborators do not raise on a batch: a spectrogram file that exists reads as a
  spectrogram with a time axis that is not empty, and the spectrogram of a batch that
  overlaps the window can be clipped.
\<close>

definition readable :: "('t, 'v) spectrogram_env \<Rightarrow> batch \<Rightarrow> bool" where
  "readable S b =
     (\<not> spectrogram_file_exists S b \<or>
      (case read_spectrogram S b of Inl e \<Rightarrow> False | Inr sp \<Rightarrow> datetimes sp \<noteq> []))"

definition choppable ::
  "('t::linorder, 'v) spectrogram_env \<Rightarrow> 't \<Rightarrow> 't \<Rightarrow> string \<Rightarrow> string \<Rightarrow> batch \<Rightarrow> bool" where
  "choppable S start_dt end_dt st et b =
     (\<not> overlaps_window S start_dt end_dt b \<or>
      (case chopped S st et b of Inl e \<Rightarrow> False | Inr sp \<Rightarrow> True))"


text \<open>
  Modelled from the spec: \<open>time_chop\<close> and \<open>join_spectrograms\<close> of
  \<open>spectre_core.spectrograms\<close> are not part of the sources at hand. Clipping keeps
  the timestamps within the window, with their spectra, and leaves the frequency axis
  as it is; joining concatenates along the time axis in list order and fails when the
  frequency axes differ. The two serve as the collaborators of the example below.
\<close>

definition clip :: "('t::linorder, 'v) spectrogram \<Rightarrow> 't \<Rightarrow> 't \<Rightarrow> ('t, 'v) spectrogram" where
  "clip sp a b =
     (let kept = filter (\<lambda>(t, spectrum). a \<le> t \<and> t \<le> b)
                   (zip (datetimes sp) (dynamic_spectra sp))
      in sp\<lparr>datetimes := map fst kept, dynamic_spectra := map snd kept\<rparr>)"

definition join :: "('t, 'v) spectrogram list \<Rightarrow> error + ('t, 'v) spectrogram" where
  "join sps =
     (case sps of
        [] \<Rightarrow> Inl (ValueError ''no spectrograms to join'')
      | sp # rest \<Rightarrow>
          if list_all (\<lambda>s. frequencies s = frequencies sp) rest
          then Inr \<lparr>datetimes = concat (map datetimes sps),
                    frequencies = frequencies sp,
                    dynamic_spectra = concat (map dynamic_spectra sps)\<rparr>
          else Inl (ValueError ''frequency axes differ''))"

subsection \<open>Spectrogram files for the small file system\<close>

text \<open>
  Times are seconds since \<open>2024-01-01T00:00:00\<close>; the parser of the example knows
  the four timestamps the examples use. The first batch holds two spectra, an hour
  apart; the second holds a single spectrum, at its start time.
\<close>

definition example_strptime :: "string \<Rightarrow> string \<Rightarrow> error + int" where
  "example_strptime s fmt =
     (case map_of [(''2024-01-01T00:00:00'', 0), (''2024-01-01T01:00:00'', 3600),
                   (''2024-01-02T00:00:00'', 86400), (''2024-01-03T00:00:00'', 172800)] s of
        Some t \<Rightarrow> Inr t
      | None \<Rightarrow> Inl (ValueError ''time data does not match format''))"

definition example_spectrograms :: "batch \<Rightarrow> (int, int) spectrogram option" where
  "example_spectrograms b =
     (if start_time b = ''2024-01-01T00:00:00''
      then Some \<lparr>datetimes = [0, 3600], frequencies = [100, 200],
                 dynamic_spectra = [[1, 2], [3, 4]]\<rparr>
      else if start_time b = ''2024-01-02T00:00:00''
      then Some \<lparr>datetimes = [86400], frequencies = [100, 200], dynamic_spectra = [[5, 6]]\<rparr>
      else None)"

definition example_spectrogram_env :: "(int, int) spectrogram_env" where
  "example_spectrogram_env =
     \<lparr>strptime = example_strptime,
      spectrogram_file_exists = (\<lambda>b. example_spectrograms b \<noteq> None),
      read_spectrogram = (\<lambda>b. case example_spectrograms b of
         Some sp \<Rightarrow> Inr sp
       | None \<Rightarrow> Inl (ValueError ''no spectrogram file'')),
      time_chop = (\<lambda>sp st et.
         case example_strptime st DATETIME of
           Inl e \<Rightarrow> Inl e
         | Inr a \<Rightarrow> (case example_strptime et DATETIME of
                        Inl e \<Rightarrow> Inl e
                      | Inr b \<Rightarrow> Inr (clip sp a b))),
      join_spectrograms = join\<rparr>"


section \<open>The rescan\<close>

lemma unpack2_split:
  "unpack2 (str_split1 CHR ''_'' (fst (splitext f))) =
     (if has_underscore f then Inr (name_start_time f, name_tag f)
      else Inl (ValueError ''not enough values to unpack (expected 2, got 1)''))"
  by (simp add: str_split1_def has_underscore_def name_start_time_def name_tag_def batch_name_def)

lemma scan_files_ok:
  "list_all has_underscore fs \<Longrightarrow>
   scan_files tg fs m = Inr (fold (store tg) (discovered_start_times tg fs) m)"
proof (induction fs arbitrary: m)
  case Nil
  then show ?case by (simp add: discovered_start_times_def)
next
  case (Cons f fs)
  then show ?case
    by (simp add: unpack2_split discovered_start_times_def store_def)
qed

lemma scan_files_fail:
  "\<not> list_all has_underscore fs \<Longrightarrow>
   scan_files tg fs m = Inl (ValueError ''not enough values to unpack (expected 2, got 1)'')"
proof (induction fs arbitrary: m)
  case Nil
  then show ?case by simp
next
  case (Cons f fs)
  then show ?case by (cases "has_underscore f") (simp_all add: unpack2_split)
qed

lemma fold_store_keys:
  "set (map fst (fold (store tg) ts m)) = set (map fst m) \<union> set ts"
  by (induction ts arbitrary: m) (auto simp: store_def dom_update)

lemma fold_store_distinct:
  "distinct (map fst m) \<Longrightarrow> distinct (map fst (fold (store tg) ts m))"
  by (induction ts arbitrary: m) (simp_all add: store_def distinct_update)

lemma store_entries:
  "list_all (\<lambda>(k, v). v = \<lparr>start_time = k, batch_tag = tg\<rparr>) m \<Longrightarrow>
   list_all (\<lambda>(k, v). v = \<lparr>start_time = k, batch_tag = tg\<rparr>) (store tg st m)"
  by (induction m) (auto simp: store_def)

lemma fold_store_entries:
  "list_all (\<lambda>(k, v). v = \<lparr>start_time = k, batch_tag = tg\<rparr>) m \<Longrightarrow>
   list_all (\<lambda>(k, v). v = \<lparr>start_time = k, batch_tag = tg\<rparr>) (fold (store tg) ts m)"
  by (induction ts arbitrary: m) (simp_all add: store_entries)

lemma entries_map:
  "list_all (\<lambda>(k, v). v = g k) m \<Longrightarrow> m = map (\<lambda>k. (k, g k)) (map fst m)"
  by (induction m) auto

text \<open>Sorting entries with distinct keys lists the keys in increasing order.\<close>

lemma keys_sort_key:
  assumes "distinct (map fst (m :: ('k::linorder \<times> 'v) list))"
  shows "map fst (sort_key fst m) = sorted_list_of_set (set (map fst m))"
proof -
  let ?ks = "map fst (sort_key fst m)"
  have "card (set ?ks) = length ?ks"
    using assms distinct_card [of "map fst m"] by simp
  then have "distinct ?ks" by (rule card_distinct)
  moreover have "sorted ?ks" by (rule sorted_sort_key)
  ultimately have "sorted_list_of_set (set ?ks) = ?ks"
    by (rule sorted_list_of_set.idem_if_sorted_distinct [rotated])
  then show ?thesis by simp
qed

text \<open>
  What a rescan that returns has done: the date scope gave a path, every file name
  below it had its underscore, and the new map holds one batch for each distinct
  timestamp of the tag, in increasing order of the timestamps.
\<close>

lemma update_result:
  assumes "update E self = Inr self'"
  shows "\<exists>path. batches_dir_path E self = Inr path \<and>
           list_all has_underscore (walk_files E path) \<and>
           self' = self\<lparr>batch_map :=
             map (\<lambda>k. (k, \<lparr>start_time = k, batch_tag = tag self\<rparr>))
               (sort (remdups (discovered_start_times (tag self) (walk_files E path))))\<rparr>"
proof -
  from assms obtain path where p: "batches_dir_path E self = Inr path"
    by (auto simp: update_def split: sum.splits)
  let ?fs = "walk_files E path"
  let ?ts = "discovered_start_times (tag self) ?fs"
  let ?m = "fold (store (tag self)) ?ts []"
  have ok: "list_all has_underscore ?fs"
    using assms p scan_files_fail [of ?fs "tag self" "[]"]
    by (auto simp: update_def split: sum.splits)
  then have sc: "scan_files (tag self) ?fs [] = Inr ?m"
    by (rule scan_files_ok)
  have s': "self' = self\<lparr>batch_map := sort_key fst ?m\<rparr>"
    using assms p sc by (simp add: update_def)
  have "list_all (\<lambda>(k, v). v = \<lparr>start_time = k, batch_tag = tag self\<rparr>) ?m"
    by (rule fold_store_entries) simp
  then have ent:
    "list_all (\<lambda>(k, v). v = \<lparr>start_time = k, batch_tag = tag self\<rparr>) (sort_key fst ?m)"
    by (simp add: list_all_iff)
  have "distinct (map fst ?m)"
    by (rule fold_store_distinct) simp
  then have "map fst (sort_key fst ?m) = sorted_list_of_set (set (map fst ?m))"
    by (rule keys_sort_key)
  also have "set (map fst ?m) = set ?ts"
    using fold_store_keys [of "tag self" ?ts "[]"] by simp
  finally have keys: "map fst (sort_key fst ?m) = sort (remdups ?ts)"
    by (simp add: sorted_list_of_set_sort_remdups)
  have "sort_key fst ?m =
        map (\<lambda>k. (k, \<lparr>start_time = k, batch_tag = tag self\<rparr>)) (map fst (sort_key fst ?m))"
    using ent by (rule entries_map)
  with keys s' p ok show ?thesis by simp
qed

lemma update_succeeds:
  assumes "batches_dir_path E self = Inr path" "list_all has_underscore (walk_files E path)"
  shows "\<exists>self'. update E self = Inr self'"
  using assms by (simp add: update_def scan_files_ok)

lemma update_raises:
  assumes "batches_dir_path E self = Inr path" "\<not> list_all has_underscore (walk_files E path)"
  shows "update E self = Inl (ValueError ''not enough values to unpack (expected 2, got 1)'')"
  using assms by (simp add: update_def scan_files_fail)

lemma update_ignores_map: "update E (self\<lparr>batch_map := m\<rparr>) = update E self"
  by (simp add: update_def batches_dir_path_def split: sum.splits)

lemma example_update: "update example_env example_registry = Inr example_updated"
  by (simp add: update_def example_env_def example_registry_def example_updated_def
      batches_dir_path_def get_batches_dir_path_def get_date_based_dir_path_def
      date_dir_components_def splitext_def rfind_def str_split1_def)

lemma example_path: "batches_dir_path example_env example_registry = Inr ''/data/batches''"
  by (simp add: example_env_def example_registry_def
      batches_dir_path_def get_batches_dir_path_def get_date_based_dir_path_def
      date_dir_components_def)

text \<open>
  Claim C4. After an \<open>update\<close> that returns, the registry's \<open>start_times\<close> are
  strictly increasing, no start time appears twice, and the list is the sorted list of
  the distinct timestamps of the discovered files of the tag; when those timestamps are
  distinct as discovered, it is their sorted list.
\<close>

theorem update_start_times_sorted:
  assumes "update E self = Inr self'" and "batches_dir_path E self = Inr path"
  shows "sorted_wrt (<) (start_times self') \<and>
         distinct (start_times self') \<and>
         start_times self' =
           sort (remdups (discovered_start_times (tag self) (walk_files E path))) \<and>
         (distinct (discovered_start_times (tag self) (walk_files E path)) \<longrightarrow>
          start_times self' = sort (discovered_start_times (tag self) (walk_files E path)))"
proof -
  let ?ts = "discovered_start_times (tag self) (walk_files E path)"
  from update_result [OF assms(1)] assms(2)
  have "self' = self\<lparr>batch_map :=
          map (\<lambda>k. (k, \<lparr>start_time = k, batch_tag = tag self\<rparr>)) (sort (remdups ?ts))\<rparr>"
    by auto
  then have st: "start_times self' = sort (remdups ?ts)"
    by (simp add: start_times_def comp_def)
  have "sorted (sort (remdups ?ts))" "distinct (sort (remdups ?ts))"
    by simp_all
  then have "sorted_wrt (<) (sort (remdups ?ts))"
    by (simp add: strict_sorted_iff)
  with st show ?thesis by (simp add: distinct_remdups_id)
qed

theorem update_start_times_sorted_witness:
  "update example_env example_registry = Inr example_updated \<and>
   start_times example_updated = [''2024-01-01T00:00:00'', ''2024-01-02T00:00:00''] \<and>
   sorted_wrt (<) (start_times example_updated) \<and>
   distinct (start_times example_updated) \<and>
   start_times example_updated =
     sort (remdups (discovered_start_times (tag example_registry)
       (walk_files example_env ''/data/batches'')))"
proof -
  have "start_times example_updated = [''2024-01-01T00:00:00'', ''2024-01-02T00:00:00'']"
    by (simp add: start_times_def example_updated_def)
  with update_start_times_sorted [OF example_update example_path] example_update
  show ?thesis by blast
qed

text \<open>
  Claim C6. \<open>update\<close> is idempotent: on the same file system, a second \<open>update\<close>
  right after one that returned gives the same registry, with the same ordered map.
\<close>

theorem update_idempotent:
  assumes "update E self = Inr self'"
  shows "update E self' = Inr self'"
proof -
  from update_result [OF assms] obtain m where "self' = self\<lparr>batch_map := m\<rparr>"
    by blast
  then have "update E self' = update E self"
    by (simp add: update_ignores_map)
  with assms show ?thesis by simp
qed

theorem update_idempotent_witness:
  "update example_env example_registry = Inr example_updated \<and>
   update example_env example_updated = Inr example_updated"
  using update_idempotent [OF example_update] example_update by simp

text \<open>
  Claim C8. For a valid date scope, \<open>update\<close> returns exactly when every file name
  found below the scoped directory has an underscore once its extension is stripped;
  as soon as one has none, \<open>update\<close> raises the \<open>ValueError\<close> of the failed
  unpacking instead of skipping the file.
\<close>

theorem update_total_iff_names_split:
  assumes "batches_dir_path E self = Inr path"
  shows "((\<exists>self'. update E self = Inr self') \<longleftrightarrow>
            list_all has_underscore (walk_files E path)) \<and>
         (list_ex (\<lambda>f. \<not> has_underscore f) (walk_files E path) \<longrightarrow>
            update E self =
              Inl (ValueError ''not enough values to unpack (expected 2, got 1)''))"
proof -
  have "list_ex (\<lambda>f. \<not> has_underscore f) (walk_files E path) \<longleftrightarrow>
        \<not> list_all has_underscore (walk_files E path)"
    by (simp add: list_ex_iff list_all_iff)
  with update_succeeds [OF assms] update_raises [OF assms] update_result [of E self]
  show ?thesis using assms by auto
qed

theorem update_total_iff_names_split_witness:
  "batches_dir_path example_env example_registry_2024 = Inr ''/data/batches/2024'' \<and>
   walk_files example_env ''/data/batches/2024'' = [''README''] \<and>
   \<not> has_underscore ''README'' \<and>
   update example_env example_registry_2024 =
     Inl (ValueError ''not enough values to unpack (expected 2, got 1)'')"
proof -
  have p: "batches_dir_path example_env example_registry_2024 = Inr ''/data/batches/2024''"
    by (simp add: example_env_def example_registry_def example_registry_2024_def
      batches_dir_path_def get_batches_dir_path_def get_date_based_dir_path_def
      date_dir_components_def format_zero_padded_def zero_pad_def digits_of.simps)
  have w: "walk_files example_env ''/data/batches/2024'' = [''README'']"
    by (simp add: example_env_def)
  have h: "\<not> has_underscore ''README''"
    by (simp add: has_underscore_def batch_name_def splitext_def rfind_def)
  from update_total_iff_names_split [OF p] p w h show ?thesis by simp
qed

section \<open>Date scopes and directory paths\<close>

lemma digits_of_chars: "digits_of n \<noteq> [] \<and> set (digits_of n) \<subseteq> set ''0123456789''"
proof (induction n rule: digits_of.induct)
  case (1 n)
  have "n mod 10 < 10" by simp
  then have m: "''0123456789'' ! (n mod 10) \<in> set ''0123456789''"
    by (intro nth_mem) simp
  show ?case
  proof (cases "n < 10")
    case True
    then have "''0123456789'' ! n \<in> set ''0123456789''"
      by (intro nth_mem) simp
    with True show ?thesis by (subst (1 2) digits_of.simps) simp
  next
    case False
    with 1 m show ?thesis by (subst (1 2) digits_of.simps) simp
  qed
qed

lemma format_zero_padded_chars:
  "format_zero_padded w i \<noteq> [] \<and> CHR ''/'' \<notin> set (format_zero_padded w i)"
  using digits_of_chars [of "nat i"] digits_of_chars [of "nat (- i)"]
  by (auto simp: format_zero_padded_def zero_pad_def)

lemma os_path_join_plain:
  assumes "base \<noteq> []" "last base \<noteq> CHR ''/''"
    and "list_all (\<lambda>c. c \<noteq> [] \<and> CHR ''/'' \<notin> set c) comps"
  shows "os_path_join base comps = base @ concat (map (\<lambda>c. ''/'' @ c) comps)"
  using assms
proof (induction comps arbitrary: base)
  case Nil
  then show ?case by simp
next
  case (Cons c comps)
  from Cons.prems have c: "c \<noteq> []" "CHR ''/'' \<notin> set c" by simp_all
  then have "hd c \<noteq> CHR ''/''" "last c \<noteq> CHR ''/''"
    by (metis hd_in_set, metis last_in_set)
  with Cons c show ?case by simp
qed

lemma length_digits_of: "n < 10 ^ k \<Longrightarrow> 0 < k \<Longrightarrow> length (digits_of n) \<le> k"
proof (induction n arbitrary: k rule: digits_of.induct)
  case (1 n)
  show ?case
  proof (cases "n < 10")
    case True
    with 1(3) show ?thesis by (subst digits_of.simps) simp
  next
    case False
    with 1(2) have "k \<noteq> 1" by auto
    with 1(3) obtain j where j: "k = Suc j" "0 < j" by (cases k) auto
    with 1(2) have "n div 10 < 10 ^ j" by (simp add: less_mult_imp_div_less mult.commute)
    with 1(1) [OF False this] j have "length (digits_of (n div 10)) \<le> j" by simp
    with False j show ?thesis by (subst digits_of.simps) simp
  qed
qed

lemma length_format_zero_padded:
  "0 \<le> i \<Longrightarrow> i < 10 ^ w \<Longrightarrow> 0 < w \<Longrightarrow> length (format_zero_padded w i) = w"
proof -
  assume a: "0 \<le> i" "i < 10 ^ w" "0 < w"
  then have "nat i < 10 ^ w"
    by (metis nat_less_iff of_nat_numeral of_nat_power)
  with a have "length (digits_of (nat i)) \<le> w" by (intro length_digits_of)
  with a show ?thesis by (simp add: format_zero_padded_def zero_pad_def)
qed

lemma date_dir_components_plain:
  "list_all (\<lambda>c. c \<noteq> [] \<and> CHR ''/'' \<notin> set c) (date_dir_components y m d)"
  by (simp add: date_dir_components_def format_zero_padded_chars)

lemma set_date_unfold:
  "batches_dir_path E (self\<lparr>year := y, month := m, day := d\<rparr>) = get_batches_dir_path E y m d"
  by (simp add: batches_dir_path_def)

lemma truthy_present: "c \<noteq> Some 0 \<Longrightarrow> truthy c \<longleftrightarrow> c \<noteq> None"
  by (cases c) simp_all

text \<open>
  Claim C5, as amended. For every combination of year, month and day in which each
  component is either absent (\<open>None\<close>) or an integer other than \<open>0\<close>, the path
  construction returns exactly when the dependency holds (a day requires a month and a
  year, a month requires a year) and raises \<open>ValueError\<close> exactly when it does not;
  the path it returns is the base directory followed by the present components, the
  year padded with zeros to four digits and the month and the day to two. \<open>set_date\<close>
  raises that \<open>ValueError\<close> for every combination that violates the dependency, and
  so returns only for combinations that satisfy it.
\<close>

theorem date_scope_dependency:
  assumes "y \<noteq> Some 0" and "m \<noteq> Some 0" and "d \<noteq> Some 0"
  shows
  "((\<exists>p. get_date_based_dir_path base y m d = Inr p) \<longleftrightarrow> date_dependency y m d) \<and>
   ((\<exists>msg. get_date_based_dir_path base y m d = Inl (ValueError msg)) \<longleftrightarrow>
      \<not> date_dependency y m d) \<and>
   (date_dependency y m d \<and> base \<noteq> [] \<and> last base \<noteq> CHR ''/'' \<longrightarrow>
      get_date_based_dir_path base y m d =
        Inr (base @
          (if y \<noteq> None then ''/'' @ format_zero_padded 4 (the y) else []) @
          (if m \<noteq> None then ''/'' @ format_zero_padded 2 (the m) else []) @
          (if d \<noteq> None then ''/'' @ format_zero_padded 2 (the d) else []))) \<and>
   (\<forall>n. 0 \<le> n \<and> n < 10000 \<longrightarrow> length (format_zero_padded 4 n) = 4) \<and>
   (\<forall>n. 0 \<le> n \<and> n < 100 \<longrightarrow> length (format_zero_padded 2 n) = 2) \<and>
   (\<not> date_dependency y m d \<longrightarrow>
      (\<exists>msg. set_date E self y m d = Inl (ValueError msg))) \<and>
   ((\<exists>self'. set_date E self y m d = Inr self') \<longrightarrow> date_dependency y m d)"
proof -
  note t = truthy_present [OF assms(1)] truthy_present [OF assms(2)]
    truthy_present [OF assms(3)]
  have a: "(\<exists>p. get_date_based_dir_path base y m d = Inr p) \<longleftrightarrow> date_dependency y m d"
    for base
    by (auto simp: get_date_based_dir_path_def date_dependency_def t)
  have b: "(\<exists>msg. get_date_based_dir_path base y m d = Inl (ValueError msg)) \<longleftrightarrow>
      \<not> date_dependency y m d" for base
    by (auto simp: get_date_based_dir_path_def date_dependency_def t)
  have c: "get_date_based_dir_path base y m d =
        Inr (base @
          (if y \<noteq> None then ''/'' @ format_zero_padded 4 (the y) else []) @
          (if m \<noteq> None then ''/'' @ format_zero_padded 2 (the m) else []) @
          (if d \<noteq> None then ''/'' @ format_zero_padded 2 (the d) else []))"
    if "date_dependency y m d" "base \<noteq> []" "last base \<noteq> CHR ''/''"
  proof -
    from that(1) have "get_date_based_dir_path base y m d =
      Inr (os_path_join base (date_dir_components y m d))"
      by (auto simp: get_date_based_dir_path_def date_dependency_def t)
    also have "os_path_join base (date_dir_components y m d) =
      base @ concat (map (\<lambda>c. ''/'' @ c) (date_dir_components y m d))"
      using that(2,3) date_dir_components_plain by (rule os_path_join_plain)
    finally show ?thesis by (simp add: date_dir_components_def t)
  qed
  have l4: "length (format_zero_padded 4 n) = 4" if "0 \<le> n \<and> n < 10000" for n
    using that length_format_zero_padded [of n 4] by simp
  have l2: "length (format_zero_padded 2 n) = 2" if "0 \<le> n \<and> n < 100" for n
    using that length_format_zero_padded [of n 2] by simp
  have e: "\<exists>msg. set_date E self y m d = Inl (ValueError msg)" if "\<not> date_dependency y m d"
  proof -
    from that b [of "BATCHES_DIR_PATH E"] obtain msg where
      "get_batches_dir_path E y m d = Inl (ValueError msg)"
      by (auto simp: get_batches_dir_path_def)
    then show ?thesis
      by (simp add: set_date_def update_def set_date_unfold)
  qed
  have f: "date_dependency y m d" if "\<exists>self'. set_date E self y m d = Inr self'"
  proof (rule ccontr)
    assume "\<not> date_dependency y m d"
    from e [OF this] that show False by auto
  qed
  from a b c l4 l2 e f show ?thesis by blast
qed

theorem date_scope_dependency_witness:
  "date_dependency (Some 2024) (Some 3) (Some 7) \<and>
   get_date_based_dir_path ''/data/batches'' (Some 2024) (Some 3) (Some 7) =
     Inr ''/data/batches/2024/03/07'' \<and>
   \<not> date_dependency None (Some 3) None \<and>
   (\<exists>msg. get_date_based_dir_path ''/data/batches'' None (Some 3) None = Inl (ValueError msg)) \<and>
   (\<exists>msg. set_date example_env example_registry None (Some 3) None = Inl (ValueError msg))"
proof -
  have d1: "date_dependency (Some 2024) (Some 3) (Some 7)"
    by (simp add: date_dependency_def)
  have d2: "\<not> date_dependency None (Some 3) None"
    by (simp add: date_dependency_def)
  have f: "format_zero_padded 4 2024 = ''2024''" "format_zero_padded 2 3 = ''03''"
    "format_zero_padded 2 7 = ''07''"
    by (simp_all add: format_zero_padded_def zero_pad_def digits_of.simps)
  have n1: "Some (2024 :: int) \<noteq> Some 0" "Some (3 :: int) \<noteq> Some 0" "Some (7 :: int) \<noteq> Some 0"
    by simp_all
  have n2: "(None :: int option) \<noteq> Some 0"
    by simp
  from date_scope_dependency [OF n1, of "''/data/batches''"] d1
  have 1: "get_date_based_dir_path ''/data/batches'' (Some 2024) (Some 3) (Some 7) =
     Inr ''/data/batches/2024/03/07''"
    by (simp add: f)
  note w = date_scope_dependency [OF n2 n1(2) n2, of "''/data/batches''" example_env
      example_registry]
  from w d2
  have 2: "\<exists>msg. get_date_based_dir_path ''/data/batches'' None (Some 3) None =
     Inl (ValueError msg)"
    by blast
  from w d2
  have 3: "\<exists>msg. set_date example_env example_registry None (Some 3) None =
     Inl (ValueError msg)"
    by blast
  from 1 2 3 d1 d2 show ?thesis by blast
qed

text \<open>
  The claim as first stated fails where a component is \<open>0\<close>: a month \<open>0\<close> without
  a year raises nothing, and a year \<open>0\<close> with a month raises. It also fails for
  \<open>set_date\<close> where the dependency holds and the scoped directory holds a file
  without an underscore: the rescan that \<open>set_date\<close> ends with raises.
\<close>

theorem date_scope_dependency_counterexample:
  "get_date_based_dir_path ''/data/batches'' None (Some 0) None = Inr ''/data/batches'' \<and>
   get_date_based_dir_path ''/data/batches'' (Some 0) (Some 3) None =
     Inl (ValueError ''A month requires a year'') \<and>
   set_date example_env example_registry (Some 2024) None None =
     Inl (ValueError ''not enough values to unpack (expected 2, got 1)'')"
  by (simp add: get_date_based_dir_path_def date_dir_components_def set_date_def update_def
      batches_dir_path_def get_batches_dir_path_def example_env_def example_registry_def
      format_zero_padded_def zero_pad_def digits_of.simps splitext_def rfind_def str_split1_def)

text \<open>
  Claim C10. A date component equal to \<open>0\<close> is treated as absent: the batches
  directory path for month \<open>0\<close> is that for no month, whatever the year and the day,
  and likewise for year \<open>0\<close> and day \<open>0\<close>; with month \<open>0\<close> and no day the
  construction returns a path for every year, and raises nothing.
\<close>

theorem zero_component_is_absent:
  "get_batches_dir_path E y (Some 0) d = get_batches_dir_path E y None d \<and>
   get_batches_dir_path E (Some 0) m d = get_batches_dir_path E None m d \<and>
   get_batches_dir_path E y m (Some 0) = get_batches_dir_path E y m None \<and>
   get_batches_dir_path E y (Some 0) None =
     Inr (os_path_join (BATCHES_DIR_PATH E) (date_dir_components y None None)) \<and>
   get_batches_dir_path E (Some 0) None None = Inr (BATCHES_DIR_PATH E) \<and>
   get_batches_dir_path E None None (Some 0) = Inr (BATCHES_DIR_PATH E)"
proof -
  note defs = get_batches_dir_path_def get_date_based_dir_path_def date_dir_components_def
  have zero: "truthy (Some 0) = truthy None"
    by simp
  have month: "get_batches_dir_path E y (Some 0) d = get_batches_dir_path E y None d"
    unfolding defs zero by simp
  have year: "get_batches_dir_path E (Some 0) m d = get_batches_dir_path E None m d"
    unfolding defs zero by simp
  have day: "get_batches_dir_path E y m (Some 0) = get_batches_dir_path E y m None"
    unfolding defs zero by simp
  have no_error: "get_batches_dir_path E y (Some 0) None =
     Inr (os_path_join (BATCHES_DIR_PATH E) (date_dir_components y None None))"
    by (simp add: defs)
  have alone: "get_batches_dir_path E (Some 0) None None = Inr (BATCHES_DIR_PATH E)"
    "get_batches_dir_path E None None (Some 0) = Inr (BATCHES_DIR_PATH E)"
    by (simp_all add: defs)
  from month year day no_error alone show ?thesis
    by (intro conjI)
qed

section \<open>Lookups\<close>

lemma update_batches_sorted:
  assumes "update E self0 = Inr self"
  shows "map start_time (batch_list self) = start_times self \<and>
         sorted (start_times self) \<and> distinct (start_times self) \<and>
         batch_map self = map (\<lambda>k. (k, \<lparr>start_time = k, batch_tag = tag self\<rparr>)) (start_times self) \<and>
         batches_dir_path E self = batches_dir_path E self0 \<and>
         (\<exists>path. batches_dir_path E self = Inr path)"
proof -
  from update_result [OF assms] obtain path where
    p: "batches_dir_path E self0 = Inr path" and
    s: "self = self0\<lparr>batch_map :=
             map (\<lambda>k. (k, \<lparr>start_time = k, batch_tag = tag self0\<rparr>))
               (sort (remdups (discovered_start_times (tag self0) (walk_files E path))))\<rparr>"
    by blast
  let ?ks = "sort (remdups (discovered_start_times (tag self0) (walk_files E path)))"
  from s have k: "start_times self = ?ks"
    by (simp add: start_times_def comp_def)
  from s have b: "map start_time (batch_list self) = ?ks"
    by (simp add: batch_list_def comp_def)
  from s have t: "tag self = tag self0" by simp
  from s have d: "batches_dir_path E self = batches_dir_path E self0"
    by (simp add: batches_dir_path_def)
  have "sorted ?ks" "distinct ?ks" by simp_all
  with k b d p s t show ?thesis by simp
qed

lemma sorted_hd_least: "sorted xs \<Longrightarrow> x \<in> set xs \<Longrightarrow> hd xs \<le> x"
  by (cases xs) auto

lemma sorted_last_greatest: "sorted xs \<Longrightarrow> x \<in> set xs \<Longrightarrow> x \<le> last xs"
  by (induction xs) auto

lemma map_of_keyed:
  "map_of (map (\<lambda>k. (k, g k)) ks) x = (if x \<in> set ks then Some (g x) else None)"
  by (induction ks) auto

lemma example_num_batches: "num_batches example_updated = 2"
  by (simp add: num_batches_def batch_list_def example_updated_def)

lemma example_batch_list:
  "batch_list example_updated =
     [\<lparr>start_time = ''2024-01-01T00:00:00'', batch_tag = ''obs''\<rparr>,
      \<lparr>start_time = ''2024-01-02T00:00:00'', batch_tag = ''obs''\<rparr>]"
  by (simp add: batch_list_def example_updated_def)

text \<open>
  Lookup by exact start-time string: a present key returns the batch stored under it;
  an absent key raises \<open>BatchNotFoundError\<close> when the date scope of the registry is
  valid, as it is in every registry an \<open>update\<close> has returned.
\<close>

lemma get_from_start_time_valid_scope:
  "(map_of (batch_map self) st = Some b \<longrightarrow> get_from_start_time E self st = Inr b) \<and>
   (map_of (batch_map self) st = None \<and> batches_dir_path E self = Inr path \<longrightarrow>
      get_from_start_time E self st =
        Inl (BatchNotFoundError
          (''Batch with start time '' @ st @ '' could not be found within '' @ path))) \<and>
   (update E self0 = Inr self \<longrightarrow>
      (st \<in> set (start_times self) \<longrightarrow>
         get_from_start_time E self st = Inr \<lparr>start_time = st, batch_tag = tag self\<rparr>) \<and>
      (st \<notin> set (start_times self) \<longrightarrow>
         (\<exists>msg. get_from_start_time E self st = Inl (BatchNotFoundError msg))))"
proof -
  have a: "get_from_start_time E self st = Inr b" if "map_of (batch_map self) st = Some b"
    using that by (simp add: get_from_start_time_def)
  have b: "get_from_start_time E self st =
        Inl (BatchNotFoundError
          (''Batch with start time '' @ st @ '' could not be found within '' @ path))"
    if "map_of (batch_map self) st = None \<and> batches_dir_path E self = Inr path"
    using that by (simp add: get_from_start_time_def)
  have c: "(st \<in> set (start_times self) \<longrightarrow>
         get_from_start_time E self st = Inr \<lparr>start_time = st, batch_tag = tag self\<rparr>) \<and>
      (st \<notin> set (start_times self) \<longrightarrow>
         (\<exists>msg. get_from_start_time E self st = Inl (BatchNotFoundError msg)))"
    if u: "update E self0 = Inr self"
  proof -
    from update_batches_sorted [OF u] obtain p where
      m: "batch_map self =
        map (\<lambda>k. (k, \<lparr>start_time = k, batch_tag = tag self\<rparr>)) (start_times self)"
      and p: "batches_dir_path E self = Inr p"
      by blast
    have "map_of (batch_map self) st =
      (if st \<in> set (start_times self) then Some \<lparr>start_time = st, batch_tag = tag self\<rparr>
       else None)"
      by (subst m) (rule map_of_keyed)
    with p show ?thesis by (simp add: get_from_start_time_def)
  qed
  from a b c show ?thesis by blast
qed

lemma update_leaves_returned: "update E self = Inr self' \<Longrightarrow> update_leaves E self = self'"
  by (auto simp: update_def update_leaves_def split: sum.splits)

text \<open>
  Claim C7. The lookup of an absent start time does not raise \<open>BatchNotFoundError\<close>
  in the registry that a refused \<open>set_date\<close> leaves behind. \<open>set_date\<close> with a
  month and no year raises \<open>ValueError\<close>, after it has assigned the date fields and
  emptied the index; the lookup then misses the key, asks for \<open>batches_dir_path\<close> to
  word its \<open>BatchNotFoundError\<close>, and that \<open>ValueError\<close> comes out instead.
\<close>

theorem get_from_start_time_invalid_scope:
  "set_date example_env example_updated None (Some 5) None =
     Inl (ValueError ''A month requires a year'') \<and>
   set_date_leaves example_env example_updated None (Some 5) None =
     example_registry\<lparr>month := Some 5\<rparr> \<and>
   map_of (batch_map (set_date_leaves example_env example_updated None (Some 5) None))
     ''2024-01-01T00:00:00'' = None \<and>
   get_from_start_time example_env
     (set_date_leaves example_env example_updated None (Some 5) None)
     ''2024-01-01T00:00:00'' = Inl (ValueError ''A month requires a year'')"
proof -
  note path = batches_dir_path_def get_batches_dir_path_def get_date_based_dir_path_def
  have r: "set_date example_env example_updated None (Some 5) None =
     Inl (ValueError ''A month requires a year'')"
    by (simp add: set_date_def update_def path)
  have l: "set_date_leaves example_env example_updated None (Some 5) None =
     example_registry\<lparr>month := Some 5\<rparr>"
    by (simp add: set_date_leaves_def update_leaves_def path example_updated_def
        example_registry_def)
  have g: "get_from_start_time example_env (example_registry\<lparr>month := Some 5\<rparr>)
     ''2024-01-01T00:00:00'' = Inl (ValueError ''A month requires a year'')"
    by (simp add: get_from_start_time_def path example_registry_def)
  have m: "map_of (batch_map (example_registry\<lparr>month := Some 5\<rparr>))
     ''2024-01-01T00:00:00'' = None"
    by (simp add: example_registry_def)
  from r l g m show ?thesis by simp
qed

text \<open>
  Claim C2, as amended. Integer index lookup raises \<open>BatchNotFoundError\<close> when the
  registry is empty. When the registry holds \<open>n > 0\<close> batches, an index \<open>i\<close>
  returns a batch exactly when \<open>-n \<le> i < n\<close>, and every other index raises
  \<open>IndexError\<close>: an index above \<open>n\<close> is refused by the guard, and the index
  \<open>n\<close> itself passes the guard and is refused by the list access. Index \<open>0\<close>
  returns the chronologically earliest batch.
\<close>

theorem get_from_index_bounds:
  "(num_batches self = 0 \<longrightarrow>
      get_from_index self i = Inl (BatchNotFoundError ''No batches are available'')) \<and>
   (0 < num_batches self \<longrightarrow>
      ((\<exists>b. get_from_index self i = Inr b) \<longleftrightarrow> - num_batches self \<le> i \<and> i < num_batches self) \<and>
      ((\<exists>msg. get_from_index self i = Inl (IndexError msg)) \<longleftrightarrow>
         i < - num_batches self \<or> num_batches self \<le> i)) \<and>
   (0 < num_batches self \<and> num_batches self < i \<longrightarrow>
      get_from_index self i =
        Inl (IndexError
          (''Index '' @ [CHR 0x27] @ str_int i @ [CHR 0x27] @
           '' is greater than the number of batches '' @
           [CHR 0x27] @ str_int (num_batches self) @ [CHR 0x27]))) \<and>
   (0 < num_batches self \<and> i = num_batches self \<longrightarrow>
      get_from_index self i = Inl (IndexError ''list index out of range'')) \<and>
   (0 < num_batches self \<and> 0 \<le> i \<and> i < num_batches self \<longrightarrow>
      get_from_index self i = Inr (batch_list self ! nat i)) \<and>
   (update E self0 = Inr self \<and> 0 < num_batches self \<longrightarrow>
      get_from_index self 0 = Inr (hd (batch_list self)) \<and>
      (\<forall>c \<in> set (batch_list self). start_time (hd (batch_list self)) \<le> start_time c))"
proof -
  have e: "get_from_index self 0 = Inr (hd (batch_list self)) \<and>
      (\<forall>c \<in> set (batch_list self). start_time (hd (batch_list self)) \<le> start_time c)"
    if u: "update E self0 = Inr self" and n: "0 < num_batches self"
  proof -
    from n have ne: "batch_list self \<noteq> []" by (auto simp: num_batches_def)
    then have g: "get_from_index self 0 = Inr (hd (batch_list self))"
      using n by (simp add: get_from_index_def list_getitem_def num_batches_def hd_conv_nth)
    from update_batches_sorted [OF u] have
      "sorted (map start_time (batch_list self))" by simp
    then have "hd (map start_time (batch_list self)) \<le> start_time c"
      if "c \<in> set (batch_list self)" for c
      using that by (intro sorted_hd_least) simp_all
    with ne g show ?thesis by (simp add: hd_map)
  qed
  have rest: "(num_batches self = 0 \<longrightarrow>
      get_from_index self i = Inl (BatchNotFoundError ''No batches are available'')) \<and>
   (0 < num_batches self \<longrightarrow>
      ((\<exists>b. get_from_index self i = Inr b) \<longleftrightarrow> - num_batches self \<le> i \<and> i < num_batches self) \<and>
      ((\<exists>msg. get_from_index self i = Inl (IndexError msg)) \<longleftrightarrow>
         i < - num_batches self \<or> num_batches self \<le> i)) \<and>
   (0 < num_batches self \<and> num_batches self < i \<longrightarrow>
      get_from_index self i =
        Inl (IndexError
          (''Index '' @ [CHR 0x27] @ str_int i @ [CHR 0x27] @
           '' is greater than the number of batches '' @
           [CHR 0x27] @ str_int (num_batches self) @ [CHR 0x27]))) \<and>
   (0 < num_batches self \<and> i = num_batches self \<longrightarrow>
      get_from_index self i = Inl (IndexError ''list index out of range'')) \<and>
   (0 < num_batches self \<and> 0 \<le> i \<and> i < num_batches self \<longrightarrow>
      get_from_index self i = Inr (batch_list self ! nat i))"
    by (auto simp: get_from_index_def list_getitem_def num_batches_def)
  from e rest show ?thesis by blast
qed

theorem get_from_index_bounds_witness:
  "update example_env example_registry = Inr example_updated \<and>
   num_batches example_updated = 2 \<and>
   get_from_index example_updated 0 =
     Inr \<lparr>start_time = ''2024-01-01T00:00:00'', batch_tag = ''obs''\<rparr> \<and>
   get_from_index example_updated 1 =
     Inr \<lparr>start_time = ''2024-01-02T00:00:00'', batch_tag = ''obs''\<rparr> \<and>
   get_from_index example_updated 2 = Inl (IndexError ''list index out of range'') \<and>
   (\<exists>msg. get_from_index example_updated 3 = Inl (IndexError msg)) \<and>
   get_from_index (example_updated\<lparr>batch_map := []\<rparr>) 0 =
     Inl (BatchNotFoundError ''No batches are available'')"
proof -
  note n = example_num_batches and l = example_batch_list
  from get_from_index_bounds [of example_updated 0 example_env example_registry]
    example_update n l
  have 0: "get_from_index example_updated 0 =
     Inr \<lparr>start_time = ''2024-01-01T00:00:00'', batch_tag = ''obs''\<rparr>"
    by simp
  from get_from_index_bounds [of example_updated 1] n l
  have 1: "get_from_index example_updated 1 =
     Inr \<lparr>start_time = ''2024-01-02T00:00:00'', batch_tag = ''obs''\<rparr>"
    by simp
  from get_from_index_bounds [of example_updated 2] n
  have 2: "get_from_index example_updated 2 = Inl (IndexError ''list index out of range'')"
    by simp
  from get_from_index_bounds [of example_updated 3] n
  have 3: "\<exists>msg. get_from_index example_updated 3 = Inl (IndexError msg)"
    by simp
  have "num_batches (example_updated\<lparr>batch_map := []\<rparr>) = 0"
    by (simp add: num_batches_def batch_list_def)
  with get_from_index_bounds [of "example_updated\<lparr>batch_map := []\<rparr>" 0]
  have 4: "get_from_index (example_updated\<lparr>batch_map := []\<rparr>) 0 =
     Inl (BatchNotFoundError ''No batches are available'')"
    by simp
  from 0 1 2 3 4 n example_update show ?thesis by blast
qed

text \<open>
  The claim as first stated fails at the index equal to the count, which is not
  accepted, and at an index below minus the count, which does not exceed the count and
  is not accepted either.
\<close>

theorem get_from_index_bounds_counterexample:
  "num_batches example_updated = 2 \<and>
   get_from_index example_updated 2 = Inl (IndexError ''list index out of range'') \<and>
   get_from_index example_updated (- 3) = Inl (IndexError ''list index out of range'')"
  by (simp add: get_from_index_def list_getitem_def num_batches_def batch_list_def
      example_updated_def)

text \<open>
  Claim C9. In a registry of \<open>n > 0\<close> batches, integer index lookup with
  \<open>-n \<le> i \<le> -1\<close> raises nothing and returns the batch at position \<open>n + i\<close>, so
  that index \<open>-1\<close> returns the last batch, the chronologically newest one after an
  \<open>update\<close>; an index below \<open>-n\<close> is not wrapped around and raises
  \<open>IndexError\<close>.
\<close>

theorem get_from_index_negative:
  "(0 < num_batches self \<and> - num_batches self \<le> i \<and> i \<le> - 1 \<longrightarrow>
      getitem E self (IntSub i) = Inr (batch_list self ! nat (num_batches self + i))) \<and>
   (0 < num_batches self \<longrightarrow>
      getitem E self (IntSub (- 1)) = Inr (last (batch_list self))) \<and>
   (0 < num_batches self \<and> i < - num_batches self \<longrightarrow>
      getitem E self (IntSub i) = Inl (IndexError ''list index out of range'')) \<and>
   (update E self0 = Inr self \<and> 0 < num_batches self \<longrightarrow>
      (\<forall>c \<in> set (batch_list self). start_time c \<le> start_time (last (batch_list self))))"
proof -
  have a: "getitem E self (IntSub i) = Inr (batch_list self ! nat (num_batches self + i))"
    if "0 < num_batches self \<and> - num_batches self \<le> i \<and> i \<le> - 1"
    using that
    by (simp add: get_from_index_def list_getitem_def num_batches_def add.commute)
  have b: "getitem E self (IntSub (- 1)) = Inr (last (batch_list self))"
    if "0 < num_batches self"
  proof -
    from that have ne: "batch_list self \<noteq> []" by (auto simp: num_batches_def)
    then have "nat (- 1 + int (length (batch_list self))) = length (batch_list self) - 1"
      by (cases "batch_list self") simp_all
    with ne that show ?thesis
      by (simp add: get_from_index_def list_getitem_def num_batches_def last_conv_nth)
  qed
  have c: "getitem E self (IntSub i) = Inl (IndexError ''list index out of range'')"
    if "0 < num_batches self \<and> i < - num_batches self"
    using that by (simp add: get_from_index_def list_getitem_def num_batches_def)
  have d: "\<forall>c \<in> set (batch_list self). start_time c \<le> start_time (last (batch_list self))"
    if u: "update E self0 = Inr self" and n: "0 < num_batches self"
  proof
    fix c assume c: "c \<in> set (batch_list self)"
    from n have ne: "batch_list self \<noteq> []" by (auto simp: num_batches_def)
    from update_batches_sorted [OF u] have
      "sorted (map start_time (batch_list self))" by simp
    then have "start_time c \<le> last (map start_time (batch_list self))"
      using c by (intro sorted_last_greatest) simp_all
    with ne show "start_time c \<le> start_time (last (batch_list self))"
      by (simp add: last_map)
  qed
  from a b c d show ?thesis by blast
qed

theorem get_from_index_negative_witness:
  "update example_env example_registry = Inr example_updated \<and>
   num_batches example_updated = 2 \<and>
   getitem example_env example_updated (IntSub (- 1)) =
     Inr \<lparr>start_time = ''2024-01-02T00:00:00'', batch_tag = ''obs''\<rparr> \<and>
   getitem example_env example_updated (IntSub (- 2)) =
     Inr \<lparr>start_time = ''2024-01-01T00:00:00'', batch_tag = ''obs''\<rparr> \<and>
   getitem example_env example_updated (IntSub (- 3)) =
     Inl (IndexError ''list index out of range'')"
proof -
  note n = example_num_batches and l = example_batch_list
  from get_from_index_negative [of example_updated "- 1" example_env] n l
  have 1: "getitem example_env example_updated (IntSub (- 1)) =
     Inr \<lparr>start_time = ''2024-01-02T00:00:00'', batch_tag = ''obs''\<rparr>"
    by simp
  from get_from_index_negative [of example_updated "- 2" example_env] n l
  have 2: "getitem example_env example_updated (IntSub (- 2)) =
     Inr \<lparr>start_time = ''2024-01-01T00:00:00'', batch_tag = ''obs''\<rparr>"
    by simp
  from get_from_index_negative [of example_updated "- 3" example_env] n
  have 3: "getitem example_env example_updated (IntSub (- 3)) =
     Inl (IndexError ''list index out of range'')"
    by simp
  from 1 2 3 n example_update show ?thesis by blast
qed

section \<open>The result of a range query\<close>

lemma list_getitem_first: "xs \<noteq> [] \<Longrightarrow> list_getitem xs 0 = Inr (hd xs)"
  by (simp add: list_getitem_def hd_conv_nth)

lemma list_getitem_last: "xs \<noteq> [] \<Longrightarrow> list_getitem xs (- 1) = Inr (last xs)"
proof -
  assume ne: "xs \<noteq> []"
  then have "nat (- 1 + int (length xs)) = length xs - 1"
    by (cases xs) simp_all
  with ne show ?thesis by (simp add: list_getitem_def last_conv_nth)
qed

lemma list_getitem_empty: "list_getitem [] i = Inl (IndexError ''list index out of range'')"
  by (auto simp: list_getitem_def)

lemma collect_step:
  "collect_spectrograms S sd ed st et (b # rest) acc =
     (if \<not> spectrogram_file_exists S b then collect_spectrograms S sd ed st et rest acc
      else case read_spectrogram S b of
        Inl e \<Rightarrow> Inl e
      | Inr sp \<Rightarrow>
          if datetimes sp = [] then Inl (IndexError ''list index out of range'')
          else if overlaps_window S sd ed b
          then (case chopped S st et b of
                  Inl e \<Rightarrow> Inl e
                | Inr c \<Rightarrow> collect_spectrograms S sd ed st et rest (acc @ [c]))
          else collect_spectrograms S sd ed st et rest acc)"
  by (auto simp: overlaps_window_def chopped_def list_getitem_first list_getitem_last
      list_getitem_empty split: sum.splits)

lemma collect_pieces:
  "collect_spectrograms S sd ed st et bs acc = Inr pieces \<Longrightarrow>
   map Inr pieces = map Inr acc @ map (chopped S st et) (filter (overlaps_window S sd ed) bs)"
proof (induction bs arbitrary: acc)
  case Nil
  then show ?case by simp
next
  case (Cons b bs)
  show ?case
  proof (cases "overlaps_window S sd ed b")
    case True
    then obtain sp where sp: "spectrogram_file_exists S b" "read_spectrogram S b = Inr sp"
      "datetimes sp \<noteq> []"
      by (auto simp: overlaps_window_def split: sum.splits)
    with True Cons.prems obtain c where c: "chopped S st et b = Inr c"
      and r: "collect_spectrograms S sd ed st et bs (acc @ [c]) = Inr pieces"
      by (auto simp: collect_step simp del: collect_spectrograms.simps split: sum.splits)
    from Cons.IH [OF r] True c show ?thesis by simp
  next
    case False
    with Cons.prems have "collect_spectrograms S sd ed st et bs acc = Inr pieces"
      by (auto simp: collect_step simp del: collect_spectrograms.simps split: sum.splits if_splits)
    from Cons.IH [OF this] False show ?thesis by simp
  qed
qed

lemma collect_returns:
  "list_all (readable S) bs \<Longrightarrow> list_all (choppable S sd ed st et) bs \<Longrightarrow>
   \<exists>pieces. collect_spectrograms S sd ed st et bs acc = Inr pieces"
proof (induction bs arbitrary: acc)
  case Nil
  then show ?case by simp
next
  case (Cons b bs)
  then have ih: "\<exists>pieces. collect_spectrograms S sd ed st et bs acc' = Inr pieces" for acc'
    by simp
  from Cons.prems have r: "readable S b" and c: "choppable S sd ed st et b" by simp_all
  show ?case
    using r c ih
    by (auto simp: collect_step readable_def choppable_def
        simp del: collect_spectrograms.simps split: sum.splits)
qed

lemma collect_nothing:
  "collect_spectrograms S sd ed st et bs acc = Inr pieces \<Longrightarrow>
   \<not> list_ex (overlaps_window S sd ed) bs \<Longrightarrow> pieces = acc"
proof -
  assume a: "collect_spectrograms S sd ed st et bs acc = Inr pieces"
    and n: "\<not> list_ex (overlaps_window S sd ed) bs"
  from n have "filter (overlaps_window S sd ed) bs = []"
    by (simp add: list_ex_iff filter_empty_conv)
  with collect_pieces [OF a] have "map Inr pieces = (map Inr acc :: (error + _) list)" by simp
  then show ?thesis by (simp add: inj_map_eq_map)
qed

lemma example_parse:
  "strptime example_spectrogram_env ''2024-01-01T01:00:00'' DATETIME = Inr 3600"
  "strptime example_spectrogram_env ''2024-01-02T00:00:00'' DATETIME = Inr 86400"
  "strptime example_spectrogram_env ''2024-01-03T00:00:00'' DATETIME = Inr 172800"
  by (simp_all add: example_spectrogram_env_def example_strptime_def)









text \<open>
  Claim C3. When both times parse and no batch with an existing spectrogram file
  overlaps the requested window, the query returns no spectrogram at all, empty or
  not; when moreover every existing spectrogram file reads with a time axis that is
  not empty, what it raises is \<open>SpectrogramNotFoundError\<close>.
\<close>

theorem range_query_not_found:
  assumes "strptime S st DATETIME = Inr sd" and "strptime S et DATETIME = Inr ed"
    and "\<not> list_ex (overlaps_window S sd ed) (batch_list self)"
  shows "(list_all (readable S) (batch_list self) \<longrightarrow>
            get_spectrogram_from_range S self st et =
              Inl (SpectrogramNotFoundError
                ''No spectrogram data found for the given time range'')) \<and>
         (\<forall>sp. get_spectrogram_from_range S self st et \<noteq> Inr sp)"
proof -
  have a: "get_spectrogram_from_range S self st et =
      Inl (SpectrogramNotFoundError ''No spectrogram data found for the given time range'')"
    if r: "list_all (readable S) (batch_list self)"
  proof -
    from assms(3) have "list_all (choppable S sd ed st et) (batch_list self)"
      by (simp add: list_all_iff list_ex_iff choppable_def)
    from collect_returns [OF r this] obtain pieces where
      c: "collect_spectrograms S sd ed st et (batch_list self) [] = Inr pieces"
      by blast
    from collect_nothing [OF c assms(3)] have "pieces = []" .
    with c assms(1,2) show ?thesis by (simp add: get_spectrogram_from_range_def)
  qed
  have b: "get_spectrogram_from_range S self st et \<noteq> Inr sp" for sp
  proof (cases "collect_spectrograms S sd ed st et (batch_list self) []")
    case (Inl e)
    with assms(1,2) show ?thesis by (simp add: get_spectrogram_from_range_def)
  next
    case (Inr pieces)
    from collect_nothing [OF Inr assms(3)] have "pieces = []" .
    with Inr assms(1,2) show ?thesis by (simp add: get_spectrogram_from_range_def)
  qed
  from a b show ?thesis by blast
qed

theorem range_query_not_found_witness:
  "strptime example_spectrogram_env ''2024-01-03T00:00:00'' DATETIME = Inr 172800 \<and>
   \<not> list_ex (overlaps_window example_spectrogram_env 172800 172800)
       (batch_list example_updated) \<and>
   list_all (readable example_spectrogram_env) (batch_list example_updated) \<and>
   get_spectrogram_from_range example_spectrogram_env example_updated
       ''2024-01-03T00:00:00'' ''2024-01-03T00:00:00'' =
     Inl (SpectrogramNotFoundError ''No spectrogram data found for the given time range'')"
proof -
  note defs = example_spectrogram_env_def example_strptime_def example_spectrograms_def
    example_batch_list readable_def overlaps_window_def
  have n: "\<not> list_ex (overlaps_window example_spectrogram_env 172800 172800)
       (batch_list example_updated)"
    by (simp add: defs)
  have r: "list_all (readable example_spectrogram_env) (batch_list example_updated)"
    by (simp add: defs)
  from range_query_not_found [OF example_parse(3) example_parse(3) n] r example_parse(3) n
  show ?thesis by blast
qed

end
